theory Spec2Isabelle
  imports Complex_Main "HOL-Library.Multiset"
begin

section \<open>System curves: the head-loss engine\<close>

text \<open>
  The repository computes the total dynamic head (TDH) of a chain of pipe sections over a
  range of flow rates. It holds two generations of the same model:
  \<^item> \<^verbatim>\<open>src/models/PipeSection.ts\<close> with \<^verbatim>\<open>src/models/System.ts\<close>: elevation bands,
    a target flow rate per section, the friction factor inlined, imperial constants only;
  \<^item> \<^verbatim>\<open>src/unnamed/part_001\<close> (another class \<^verbatim>\<open>PipeSection\<close>), \<^verbatim>\<open>src/models/Bernoullis.ts\<close>,
    \<^verbatim>\<open>src/unnamed/part_000\<close> (\<^verbatim>\<open>SerghidesApproximation\<close>) and \<^verbatim>\<open>src/models/Pipeline.ts\<close>:
    single elevations, a friction strategy and a unit system passed in.

  A JavaScript \<^verbatim>\<open>number\<close> is modelled as a \<^typ>\<open>real\<close>: arithmetic is exact, and the rounding
  of IEEE doubles, \<^verbatim>\<open>NaN\<close> and the infinities are outside the model. Where the source
  divides by zero or takes the logarithm of a non-positive number the model has HOL's value
  of the total function; the evaluations below are at inputs where neither happens. An
  array index is an \<^typ>\<open>int\<close>.
\<close>

subsection \<open>Errors\<close>

text \<open>
  The source throws the one class \<^verbatim>\<open>Error\<close> with a message. The model keeps one constructor
  for each kind of failure; a validation failure carries its message.
  \<^item> \<open>ValidationError m\<close>: a constructor of a pipe section rejected its arguments;
  \<^item> \<open>EmptyPipelineError\<close>: \<^verbatim>\<open>'No pipe sections exist.'\<close>;
  \<^item> \<open>IndexOutOfRangeError\<close>: \<^verbatim>\<open>'Invalid pipe section index.'\<close>;
  \<^item> \<open>UnsupportedMethodError\<close>: \<^verbatim>\<open>'Colebook method not implemented.'\<close>;
  \<^item> \<open>NoMethodError\<close>: \<^verbatim>\<open>'No approximation method defined.'\<close>;
  \<^item> \<open>TypeError\<close>: the runtime's own error for calling what is not a function.
\<close>

datatype error =
    ValidationError string
  | EmptyPipelineError
  | IndexOutOfRangeError
  | UnsupportedMethodError
  | NoMethodError
  | TypeError

subsection \<open>The friction-factor strategy (\<^verbatim>\<open>src/unnamed/part_000\<close>)\<close>

text \<open>
  \<^verbatim>\<open>interface Approximation { calculateFrictionFactor(relativeRoughness, reynoldsNum) }\<close>:
  a strategy object is its one method.
\<close>

type_synonym Approximation = "real \<Rightarrow> real \<Rightarrow> real"

text \<open>
  \<^verbatim>\<open>calculateTerm(prev: number | null = null)\<close>. The test \<^verbatim>\<open>prev ? ... : ...\<close> takes the
  second branch for \<^verbatim>\<open>null\<close> and also for the number zero.
\<close>

definition calculateTerm :: "real \<Rightarrow> real \<Rightarrow> real option \<Rightarrow> real" where
  "calculateTerm roughnessTerm reynoldsNum prev =
     (let reynoldsTerm =
            (case prev of
               None \<Rightarrow> 12 / reynoldsNum
             | Some pv \<Rightarrow> if pv = 0 then 12 / reynoldsNum else (2.51 * pv) / reynoldsNum)
      in - 2 * log 10 (roughnessTerm + reynoldsTerm))"

definition Serghides_calculateFrictionFactor :: Approximation where
  "Serghides_calculateFrictionFactor relativeRoughness reynoldsNum =
     (if reynoldsNum < 2300 then 64 / reynoldsNum
      else
        let roughnessTerm = relativeRoughness / 3.7;
            a = calculateTerm roughnessTerm reynoldsNum None;
            b = calculateTerm roughnessTerm reynoldsNum (Some a);
            c = calculateTerm roughnessTerm reynoldsNum (Some b)
        in (a - ((b - a) ^ 2) / (c - 2 * b + a)) powi (- 2))"

text \<open>
  The enumeration \<^verbatim>\<open>~/models/enums/ApproximationMethod\<close> is not among the source files.
  Modelled from the spec: \<^verbatim>\<open>approximationMethod: enum{SERGHIDE, COLEBROOK}\<close>.
\<close>

datatype ApproximationMethod = SERGHIDE | COLEBROOK

subsection \<open>The banded pipe section (\<^verbatim>\<open>src/models/PipeSection.ts\<close>)\<close>

text \<open>
  The fourteen constructor parameters (\<^verbatim>\<open>ConstructorParameters<typeof PipeSection>\<close>), in
  the source's order. \<open>pipeLength\<close> is the field \<^verbatim>\<open>length\<close>.
\<close>

record PipeSectionParams =
  p1 :: real
  p2 :: real
  v1 :: real
  v2 :: real
  z1_min :: real
  z2_min :: real
  z1_max :: real
  z2_max :: real
  pipeLength :: real
  diameter :: real
  absoluteRoughness :: real
  kinematicViscOfFluid :: real
  targetFlowRate :: real
  appurtenanceKValues :: "real list"

text \<open>The object: the parameters and the three fields the constructor derives.\<close>

record PipeSection = PipeSectionParams +
  hydraulicArea :: real
  relativeRoughness :: real
  hasVelocityHead :: bool

text \<open>The constructor: six checks in the source's order, then the derived fields.\<close>

definition PipeSection_new :: "PipeSectionParams \<Rightarrow> error + PipeSection" where
  "PipeSection_new a =
     (if diameter a \<le> 0 then Inl (ValidationError ''Pipe diameter must be greater than 0.'')
      else if pipeLength a \<le> 0 then Inl (ValidationError ''Pipe length must be greater than 0.'')
      else if absoluteRoughness a < 0
        then Inl (ValidationError ''Absolute roughness must be non-negative.'')
      else if kinematicViscOfFluid a \<le> 0
        then Inl (ValidationError ''Kinematic viscosity must be greater than 0.'')
      else if length (appurtenanceKValues a) = 0
        then Inl (ValidationError ''Appurtenance K values must not be empty.'')
      else if z2_max a < z1_min a \<or> z2_min a < z1_max a
        then Inl (ValidationError ''Elevation ranges are invalid.'')
      else Inr \<lparr> p1 = p1 a, p2 = p2 a, v1 = v1 a, v2 = v2 a,
                 z1_min = z1_min a, z2_min = z2_min a, z1_max = z1_max a, z2_max = z2_max a,
                 pipeLength = pipeLength a, diameter = diameter a,
                 absoluteRoughness = absoluteRoughness a,
                 kinematicViscOfFluid = kinematicViscOfFluid a,
                 targetFlowRate = targetFlowRate a,
                 appurtenanceKValues = appurtenanceKValues a,
                 hydraulicArea = (pi * (diameter a) ^ 2) / 4,
                 relativeRoughness = absoluteRoughness a / diameter a,
                 hasVelocityHead = (v2 a \<noteq> v1 a) \<rparr>)"

text \<open>\<^verbatim>\<open>Array.from({ length: 20 }, (_, i) => step * (i + 1))\<close>\<close>

definition generateFlowRange :: "PipeSection \<Rightarrow> real list" where
  "generateFlowRange ps =
     (let step = targetFlowRate ps / 20
      in map (\<lambda>i. step * (real i + 1)) [0..<20])"

text \<open>The section's own friction factor; its closure \<^verbatim>\<open>calcTerm\<close> is a definition of its own.\<close>

definition calcTerm :: "real \<Rightarrow> real \<Rightarrow> real option \<Rightarrow> real" where
  "calcTerm roughnessTerm reynoldsNumber prev =
     (let reynoldsTerm =
            (case prev of
               None \<Rightarrow> 12 / reynoldsNumber
             | Some pv \<Rightarrow> if pv = 0 then 12 / reynoldsNumber else (2.51 / reynoldsNumber) * pv)
      in - 2 * log 10 (roughnessTerm + reynoldsTerm))"

definition calculateFrictionFactor :: "PipeSection \<Rightarrow> real \<Rightarrow> real" where
  "calculateFrictionFactor ps flowRate =
     (let reynoldsNumber =
            max ((flowRate / hydraulicArea ps) * (diameter ps / kinematicViscOfFluid ps))
                (1 / 10 ^ 6)
      in if reynoldsNumber < 2300 then 64 / reynoldsNumber
         else
           let roughnessTerm = relativeRoughness ps / 3.7;
               a = calcTerm roughnessTerm reynoldsNumber None;
               b = calcTerm roughnessTerm reynoldsNumber (Some a);
               c = calcTerm roughnessTerm reynoldsNumber (Some b)
           in (a - ((b - a) ^ 2) / (c - 2 * b + a)) powi (- 2))"

definition calculateMajorLosses :: "PipeSection \<Rightarrow> real \<Rightarrow> real" where
  "calculateMajorLosses ps flowRate =
     (let frictionFactor = calculateFrictionFactor ps flowRate
      in (frictionFactor * (pipeLength ps / diameter ps) * flowRate ^ 2) /
         (2 * 32.17 * (hydraulicArea ps) ^ 2))"

text \<open>\<^verbatim>\<open>reduce((sum, k) => sum + k, 0)\<close> is a left fold from zero.\<close>

definition calculateMinorLosses :: "PipeSection \<Rightarrow> real \<Rightarrow> real" where
  "calculateMinorLosses ps flowRate =
     (let kSum = foldl (\<lambda>sum k. sum + k) 0 (appurtenanceKValues ps)
      in (kSum * flowRate ^ 2) / (2 * 32.17 * (hydraulicArea ps) ^ 2))"

text \<open>\<^verbatim>\<open>calculateTDH\<close> returns the pair \<^verbatim>\<open>[maxTDH, minTDH]\<close>.\<close>

definition calculateTDH :: "PipeSection \<Rightarrow> real \<Rightarrow> real \<times> real" where
  "calculateTDH ps flowRate =
     (let adjustedFlowRate = max flowRate (1 / 10 ^ 6);
          pressureHead = (p2 ps - p1 ps) * 2.31;
          velocityHead =
            (if hasVelocityHead ps
             then adjustedFlowRate ^ 2 / (2 * 32.17 * (hydraulicArea ps) ^ 2)
             else 0);
          staticHeadMax = z2_max ps - z1_min ps;
          staticHeadMin = z2_min ps - z1_max ps;
          majorLosses = calculateMajorLosses ps adjustedFlowRate;
          minorLosses = calculateMinorLosses ps adjustedFlowRate;
          totalLosses = majorLosses + minorLosses + velocityHead + pressureHead
      in (staticHeadMax + totalLosses, staticHeadMin + totalLosses))"

text \<open>\<^verbatim>\<open>execute\<close> returns the triples \<^verbatim>\<open>[maxTDH, minTDH, flowRate]\<close>.\<close>

definition PipeSection_execute :: "PipeSection \<Rightarrow> (real \<times> real \<times> real) list" where
  "PipeSection_execute ps =
     map (\<lambda>flowRate. case calculateTDH ps flowRate of
                        (maxTDH, minTDH) \<Rightarrow> (maxTDH, minTDH, flowRate))
         (generateFlowRange ps)"

subsection \<open>The single-valued pipe section (\<^verbatim>\<open>src/unnamed/part_001\<close>)\<close>

text \<open>
  The second class named \<^verbatim>\<open>PipeSection\<close>: twelve private fields with accessors and no
  derived field, so the object is the record of its constructor parameters. The fields
  \<^verbatim>\<open>_targetFlowRate\<close>, \<^verbatim>\<open>_length\<close>, \<^verbatim>\<open>_diameter\<close> and \<^verbatim>\<open>_absoluteRoughness\<close> carry the
  suffix \<open>1\<close> here, the other fields the names of their accessors.
\<close>

record PipeSection1 =
  initialPressure :: real
  finalPressure :: real
  initialVelocity :: real
  finalVelocity :: real
  targetFlowRate1 :: real
  initialElevation :: real
  finalElevation :: real
  length1 :: real
  diameter1 :: real
  absoluteRoughness1 :: real
  kinematicViscosity :: real
  kValues :: "real list"

text \<open>
  The constructor: four checks. The diameter is compared with \<^verbatim>\<open><\<close>, the other three
  fields with \<^verbatim>\<open><=\<close>; the K-values are not examined.
\<close>

definition PipeSection1_new :: "PipeSection1 \<Rightarrow> error + PipeSection1" where
  "PipeSection1_new a =
     (if diameter1 a < 0 then Inl (ValidationError ''Pipe diameter must be a positive integer'')
      else if length1 a \<le> 0 then Inl (ValidationError ''Pipe length must be a positive integer'')
      else if absoluteRoughness1 a \<le> 0
        then Inl (ValidationError ''Pipe absoluteRoughness must be a positive integer'')
      else if kinematicViscosity a \<le> 0
        then Inl (ValidationError ''Pipe kinematicViscosity must be a positive integer'')
      else Inr a)"

subsection \<open>Bernoulli's decomposition (\<^verbatim>\<open>src/models/Bernoullis.ts\<close>)\<close>

text \<open>
  The object holds a strategy and a section. Its constructor rejects a missing strategy
  or section; both are objects here, so it always succeeds.
\<close>

record Bernoullis =
  approximationMethod :: Approximation
  pipeSection :: PipeSection1

definition Bernoullis_calculateStaticHead :: "Bernoullis \<Rightarrow> real" where
  "Bernoullis_calculateStaticHead this =
     finalElevation (pipeSection this) - initialElevation (pipeSection this)"

definition Bernoullis_calculatePressureHead :: "Bernoullis \<Rightarrow> bool \<Rightarrow> real" where
  "Bernoullis_calculatePressureHead this isImperial =
     (let correctionFactor = (if \<not> isImperial then 10.2 else 2.31)
      in (finalPressure (pipeSection this) - initialPressure (pipeSection this)) *
         correctionFactor)"

definition Bernoullis_calculateVelocityHead :: "Bernoullis \<Rightarrow> bool \<Rightarrow> real" where
  "Bernoullis_calculateVelocityHead this isImperial =
     (let gravity = (if \<not> isImperial then 9.81 else 32.17)
      in (finalVelocity (pipeSection this) - initialVelocity (pipeSection this)) /
         (2 * gravity))"

definition Bernoullis_calculateReynoldsNumber :: "Bernoullis \<Rightarrow> real \<Rightarrow> real" where
  "Bernoullis_calculateReynoldsNumber this flowRate =
     (let velocity = flowRate / ((pi * (diameter1 (pipeSection this)) ^ 2) / 4)
      in max ((velocity * diameter1 (pipeSection this)) / kinematicViscosity (pipeSection this))
             (1 / 10 ^ 6))"

definition Bernoullis_calculateMajorLosses :: "Bernoullis \<Rightarrow> bool \<Rightarrow> real \<Rightarrow> real \<Rightarrow> real" where
  "Bernoullis_calculateMajorLosses this isImperial flowRate relRoughness =
     (let gravity = (if \<not> isImperial then 9.81 else 32.17)
      in (approximationMethod this relRoughness (Bernoullis_calculateReynoldsNumber this flowRate) *
            (length1 (pipeSection this) / diameter1 (pipeSection this)) *
            flowRate ^ 2) /
         ((2 * gravity * pi * (diameter1 (pipeSection this)) ^ 2) / 4))"

definition Bernoullis_calculateMinorLosses :: "Bernoullis \<Rightarrow> real \<Rightarrow> bool \<Rightarrow> real" where
  "Bernoullis_calculateMinorLosses this flowRate isImperial =
     (let gravity = (if isImperial then 32.17 else 9.81);
          sum = foldl (\<lambda>sum k. sum + k) 0 (kValues (pipeSection this))
      in (sum * flowRate ^ 2) /
         ((2 * gravity * pi * (diameter1 (pipeSection this)) ^ 2) / 4))"

definition Bernoullis_calculateTDH :: "Bernoullis \<Rightarrow> bool \<Rightarrow> real \<Rightarrow> real \<Rightarrow> real" where
  "Bernoullis_calculateTDH this isImperial flowRate relRoughness =
     (let staticHead = Bernoullis_calculateStaticHead this;
          pressureHead = Bernoullis_calculatePressureHead this isImperial;
          velocityHead = Bernoullis_calculateVelocityHead this isImperial;
          majorLosses = Bernoullis_calculateMajorLosses this isImperial flowRate relRoughness;
          minorLosses = Bernoullis_calculateMinorLosses this flowRate isImperial
      in staticHead + pressureHead + velocityHead + majorLosses + minorLosses)"

text \<open>\<^verbatim>\<open>execute\<close> returns the pairs \<^verbatim>\<open>[tdh, flowRate]\<close>.\<close>

definition Bernoullis_execute :: "Bernoullis \<Rightarrow> real list \<Rightarrow> bool \<Rightarrow> (real \<times> real) list" where
  "Bernoullis_execute this flowRates isImperial =
     (let relRoughness = absoluteRoughness1 (pipeSection this) / diameter1 (pipeSection this)
      in map (\<lambda>flowRate. (Bernoullis_calculateTDH this isImperial flowRate relRoughness, flowRate))
             flowRates)"

text \<open>
  \<^verbatim>\<open>PipeSection.execute(approximationMethod, isImperial)\<close> of \<^verbatim>\<open>part_001\<close>, as written.
  With \<^verbatim>\<open>SERGHIDE\<close> it calls \<^verbatim>\<open>Bernoullis.execute(isImperial)\<close>, which puts the boolean
  where the array of flow rates belongs; \<^verbatim>\<open>flowRates.map\<close> is then not a function.
\<close>

definition PipeSection1_execute ::
  "PipeSection1 \<Rightarrow> ApproximationMethod \<Rightarrow> bool \<Rightarrow> error + (real \<times> real) list" where
  "PipeSection1_execute this approxMethod isImperial =
     (case (case approxMethod of
              SERGHIDE \<Rightarrow> Inr (Some Serghides_calculateFrictionFactor)
            | COLEBROOK \<Rightarrow> Inl UnsupportedMethodError) of
        Inl e \<Rightarrow> Inl e
      | Inr None \<Rightarrow> Inl NoMethodError
      | Inr (Some method) \<Rightarrow> Inl TypeError)"

text \<open>
  \<^verbatim>\<open>Pipeline.execute\<close> calls \<^verbatim>\<open>pipeSection.execute(flowRates, method, isImperial)\<close>, a
  signature that neither class \<^verbatim>\<open>PipeSection\<close> among the source files has.
  Modelled from the spec: \<^verbatim>\<open>evaluate(friction, flowRates, unitSystem)\<close> gives the
  per-flow-rate head results of the section, that is Bernoulli's decomposition of the
  section with the strategy supplied.
\<close>

definition sectionExecute ::
  "PipeSection1 \<Rightarrow> real list \<Rightarrow> Approximation \<Rightarrow> bool \<Rightarrow> (real \<times> real) list" where
  "sectionExecute this flowRates method isImperial =
     Bernoullis_execute \<lparr> approximationMethod = method, pipeSection = this \<rparr> flowRates isImperial"

subsection \<open>The banded aggregate (\<^verbatim>\<open>src/models/System.ts\<close>)\<close>

text \<open>
  A method of \<^verbatim>\<open>System\<close> or \<^verbatim>\<open>Pipeline\<close> takes the object and returns its outcome together
  with the object after the call; a \<^verbatim>\<open>throw\<close> is the outcome \<open>Inl\<close>.
\<close>

record System =
  pipeSections :: "PipeSection list"

text \<open>
  The inner loop of \<^verbatim>\<open>calcTDH\<close> at index \<open>i\<close>: one step for each section, on the locals
  \<^verbatim>\<open>cumulativeMinTDH\<close>, \<^verbatim>\<open>cumulativeMaxTDH\<close> and \<^verbatim>\<open>flowRate\<close>. The index stays below the
  length of the section's curve, which is 20 for every section.
\<close>

definition System_step :: "nat \<Rightarrow> PipeSection \<Rightarrow> real \<times> real \<times> real \<Rightarrow> real \<times> real \<times> real" where
  "System_step i section acc =
     (case acc of (cumulativeMinTDH, cumulativeMaxTDH, flowRate) \<Rightarrow>
        (case PipeSection_execute section ! i of (maxTDH, minTDH, currentFlowRate) \<Rightarrow>
           (cumulativeMinTDH + minTDH, cumulativeMaxTDH + maxTDH, currentFlowRate)))"

definition System_row :: "PipeSection list \<Rightarrow> nat \<Rightarrow> real \<times> real \<times> real" where
  "System_row sections i =
     (case fold (System_step i) sections (0, 0, 0) of
        (cumulativeMinTDH, cumulativeMaxTDH, flowRate) \<Rightarrow>
          (cumulativeMaxTDH, cumulativeMinTDH, flowRate))"

text \<open>
  The outer loop stores row \<open>i\<close> at index \<open>i\<close> of the array that
  \<^verbatim>\<open>Array(flowRateCount).fill([0, 0, 0])\<close> made.
\<close>

definition calcTDH :: "System \<Rightarrow> (error + (real \<times> real \<times> real) list) \<times> System" where
  "calcTDH this =
     (if length (pipeSections this) = 0 then (Inl EmptyPipelineError, this)
      else
        let flowRateCount = length (PipeSection_execute (pipeSections this ! 0));
            systemCurve = replicate flowRateCount (0, 0, 0)
        in (Inr (fold (\<lambda>i curve. curve[i := System_row (pipeSections this) i])
                      [0..<flowRateCount] systemCurve),
            this))"

definition System_addPipeSection :: "PipeSectionParams \<Rightarrow> System \<Rightarrow> (error + unit) \<times> System" where
  "System_addPipeSection pipeSectionParams this =
     (case PipeSection_new pipeSectionParams of
        Inl e \<Rightarrow> (Inl e, this)
      | Inr section \<Rightarrow> (Inr (), this\<lparr>pipeSections := pipeSections this @ [section]\<rparr>))"

text \<open>\<^verbatim>\<open>splice(index, 1)\<close> at an index in range removes the one element there.\<close>

definition System_removePipeSection :: "int \<Rightarrow> System \<Rightarrow> (error + unit) \<times> System" where
  "System_removePipeSection index this =
     (if index < 0 \<or> index \<ge> int (length (pipeSections this))
      then (Inl IndexOutOfRangeError, this)
      else (Inr (),
            this\<lparr>pipeSections :=
                   take (nat index) (pipeSections this) @
                   drop (nat index + 1) (pipeSections this)\<rparr>))"

definition System_modifyPipeSection ::
  "int \<Rightarrow> PipeSectionParams \<Rightarrow> System \<Rightarrow> (error + unit) \<times> System" where
  "System_modifyPipeSection index newParams this =
     (if index < 0 \<or> index \<ge> int (length (pipeSections this))
      then (Inl IndexOutOfRangeError, this)
      else
        case PipeSection_new newParams of
          Inl e \<Rightarrow> (Inl e, this)
        | Inr section \<Rightarrow>
            (Inr (), this\<lparr>pipeSections := (pipeSections this)[nat index := section]\<rparr>))"

definition System_getPipeSections :: "System \<Rightarrow> PipeSection list" where
  "System_getPipeSections this = pipeSections this"

subsection \<open>The pipeline (\<^verbatim>\<open>src/models/Pipeline.ts\<close>)\<close>

record Pipeline =
  pipelineSections :: "PipeSection1 list"

text \<open>\<^verbatim>\<open>Array.from({ length: 20 }, (_, i) => step * i)\<close> with \<^verbatim>\<open>step = targetFlowRate / 10\<close>.\<close>

definition Pipeline_generateFlowRange :: "real \<Rightarrow> real list" where
  "Pipeline_generateFlowRange targetFlow =
     (let step = targetFlow / 10
      in map (\<lambda>i. step * real i) [0..<20])"

text \<open>
  The inner loop of \<^verbatim>\<open>execute\<close> at index \<open>i\<close>, on the locals \<^verbatim>\<open>cumulativeTDH\<close> and
  \<^verbatim>\<open>flowRate\<close>. A section's curve is as long as the range of flow rates.
\<close>

definition Pipeline_step ::
  "nat \<Rightarrow> real list \<Rightarrow> Approximation \<Rightarrow> bool \<Rightarrow> PipeSection1 \<Rightarrow> real \<times> real \<Rightarrow> real \<times> real" where
  "Pipeline_step i flowRates method isImperial section acc =
     (case acc of (cumulativeTDH, flowRate) \<Rightarrow>
        (case sectionExecute section flowRates method isImperial ! i of
           (tdh, currentFlowRate) \<Rightarrow> (cumulativeTDH + tdh, currentFlowRate)))"

definition Pipeline_row ::
  "PipeSection1 list \<Rightarrow> real list \<Rightarrow> Approximation \<Rightarrow> bool \<Rightarrow> nat \<Rightarrow> real \<times> real" where
  "Pipeline_row sections flowRates method isImperial i =
     fold (Pipeline_step i flowRates method isImperial) sections (0, 0)"

text \<open>
  \<^verbatim>\<open>execute(targetFlowRate, approximationMethod, isImperial)\<close>: the emptiness check comes
  first, the choice of the strategy second.
\<close>

definition Pipeline_execute ::
  "real \<Rightarrow> ApproximationMethod \<Rightarrow> bool \<Rightarrow> Pipeline \<Rightarrow> (error + (real \<times> real) list) \<times> Pipeline" where
  "Pipeline_execute targetFlow approxMethod isImperial this =
     (if length (pipelineSections this) = 0 then (Inl EmptyPipelineError, this)
      else
        case (case approxMethod of
                SERGHIDE \<Rightarrow> Inr (Some Serghides_calculateFrictionFactor)
              | COLEBROOK \<Rightarrow> Inl UnsupportedMethodError) of
          Inl e \<Rightarrow> (Inl e, this)
        | Inr None \<Rightarrow> (Inl NoMethodError, this)
        | Inr (Some method) \<Rightarrow>
            let flowRates = Pipeline_generateFlowRange targetFlow;
                flowRateCount = 20;
                systemCurve = replicate flowRateCount (0, 0)
            in (Inr (fold (\<lambda>i curve.
                             curve[i := Pipeline_row (pipelineSections this) flowRates method
                                          isImperial i])
                          [0..<flowRateCount] systemCurve),
                this))"

definition Pipeline_addPipeSection :: "PipeSection1 \<Rightarrow> Pipeline \<Rightarrow> (error + unit) \<times> Pipeline" where
  "Pipeline_addPipeSection pipeSectionParams this =
     (case PipeSection1_new pipeSectionParams of
        Inl e \<Rightarrow> (Inl e, this)
      | Inr section \<Rightarrow> (Inr (), this\<lparr>pipelineSections := pipelineSections this @ [section]\<rparr>))"

definition Pipeline_removePipeSection :: "int \<Rightarrow> Pipeline \<Rightarrow> (error + unit) \<times> Pipeline" where
  "Pipeline_removePipeSection index this =
     (if index < 0 \<or> index \<ge> int (length (pipelineSections this))
      then (Inl IndexOutOfRangeError, this)
      else (Inr (),
            this\<lparr>pipelineSections :=
                   take (nat index) (pipelineSections this) @
                   drop (nat index + 1) (pipelineSections this)\<rparr>))"

definition Pipeline_modifyPipeSection ::
  "int \<Rightarrow> PipeSection1 \<Rightarrow> Pipeline \<Rightarrow> (error + unit) \<times> Pipeline" where
  "Pipeline_modifyPipeSection index newParams this =
     (if index < 0 \<or> index \<ge> int (length (pipelineSections this))
      then (Inl IndexOutOfRangeError, this)
      else
        case PipeSection1_new newParams of
          Inl e \<Rightarrow> (Inl e, this)
        | Inr section \<Rightarrow>
            (Inr (), this\<lparr>pipelineSections := (pipelineSections this)[nat index := section]\<rparr>))"

definition Pipeline_getPipeSections :: "Pipeline \<Rightarrow> PipeSection1 list" where
  "Pipeline_getPipeSections this = pipelineSections this"

subsection \<open>Quantities of the specification\<close>

text \<open>
  The Reynolds number of a banded section at a flow rate, as the specification writes it:
  \<open>Re = max((Q/hydraulicArea)\<cdot>(diameter/kinematicViscosity), 1e-6)\<close>.
\<close>

definition sectionReynoldsNumber :: "PipeSection \<Rightarrow> real \<Rightarrow> real" where
  "sectionReynoldsNumber ps Q =
     max ((Q / hydraulicArea ps) * (diameter ps / kinematicViscOfFluid ps)) (1 / 10 ^ 6)"

text \<open>
  The major losses as the specification writes them (Darcy--Weisbach), from the friction
  factor \<open>f\<close>, the length, the diameter, the flow rate \<open>Q\<close> and the gravitational constant
  \<open>g\<close>: \<open>f \<cdot> (length/diameter) \<cdot> Q\<^sup>2 / (2\<cdot>g\<cdot>hydraulicArea\<^sup>2)\<close> with
  \<open>hydraulicArea = \<pi>\<cdot>diameter\<^sup>2/4\<close>.
\<close>

definition specMajorLosses :: "real \<Rightarrow> real \<Rightarrow> real \<Rightarrow> real \<Rightarrow> real \<Rightarrow> real" where
  "specMajorLosses f len d Q g = f * (len / d) * Q ^ 2 / (2 * g * ((pi * d ^ 2) / 4) ^ 2)"

text \<open>The gravitational constant of a unit system: 32.17 imperial, 9.81 metric.\<close>

definition gravityOf :: "bool \<Rightarrow> real" where
  "gravityOf isImperial = (if isImperial then 32.17 else 9.81)"

text \<open>The three fields of a triple of a banded curve.\<close>

definition maxTDH :: "real \<times> real \<times> real \<Rightarrow> real" where
  "maxTDH t = fst t"

definition minTDH :: "real \<times> real \<times> real \<Rightarrow> real" where
  "minTDH t = fst (snd t)"


subsection \<open>Example inputs\<close>

text \<open>
  The example scenario of the specification (length 100, diameter 0.5, absolute roughness
  0.0002, kinematic viscosity 1.1e-5, one K-value 0.5, target flow rate 10), with an
  elevation band from \<open>[0, 2]\<close> to \<open>[10, 15]\<close> and a pressure rise of 10.
\<close>

definition exampleParams :: PipeSectionParams where
  "exampleParams =
     \<lparr> p1 = 0, p2 = 10, v1 = 0, v2 = 0,
       z1_min = 0, z2_min = 10, z1_max = 2, z2_max = 15,
       pipeLength = 100, diameter = 1 / 2, absoluteRoughness = 2 / 10000,
       kinematicViscOfFluid = 11 / 1000000, targetFlowRate = 10,
       appurtenanceKValues = [1 / 2] \<rparr>"

definition exampleSection :: PipeSection where
  "exampleSection =
     \<lparr> p1 = 0, p2 = 10, v1 = 0, v2 = 0,
       z1_min = 0, z2_min = 10, z1_max = 2, z2_max = 15,
       pipeLength = 100, diameter = 1 / 2, absoluteRoughness = 2 / 10000,
       kinematicViscOfFluid = 11 / 1000000, targetFlowRate = 10,
       appurtenanceKValues = [1 / 2],
       hydraulicArea = (pi * (1 / 2) ^ 2) / 4,
       relativeRoughness = (2 / 10000) / (1 / 2),
       hasVelocityHead = False \<rparr>"

text \<open>The same scenario for the single-valued section, once with no K-value at all.\<close>

definition exampleSection1 :: PipeSection1 where
  "exampleSection1 =
     \<lparr> initialPressure = 0, finalPressure = 10, initialVelocity = 0, finalVelocity = 0,
       targetFlowRate1 = 10, initialElevation = 0, finalElevation = 10,
       length1 = 100, diameter1 = 1 / 2, absoluteRoughness1 = 2 / 10000,
       kinematicViscosity = 11 / 1000000, kValues = [1 / 2] \<rparr>"

definition exampleSection1NoK :: PipeSection1 where
  "exampleSection1NoK = exampleSection1 \<lparr> kValues := [] \<rparr>"

text \<open>
  Bernoulli's decomposition of the example section with the strategy of Serghide, and a
  second banded section that differs from the first in its target flow rate only (the
  constructor accepts it: it makes no check of the target flow rate).
\<close>

definition exampleBernoullis :: Bernoullis where
  "exampleBernoullis =
     \<lparr> approximationMethod = Serghides_calculateFrictionFactor,
       pipeSection = exampleSection1 \<rparr>"



section \<open>Properties\<close>

subsection \<open>Shared facts\<close>




lemma calcTerm_eq: "calcTerm r re prev = calculateTerm r re prev"
  by (simp add: calcTerm_def calculateTerm_def split: option.splits)

text \<open>
  The friction factor that the banded section computes for itself is the strategy of
  \<^verbatim>\<open>SerghidesApproximation\<close> at the section's relative roughness and Reynolds number.
\<close>

lemma friction_is_strategy:
  "calculateFrictionFactor ps Q =
     Serghides_calculateFrictionFactor (relativeRoughness ps) (sectionReynoldsNumber ps Q)"
  unfolding calculateFrictionFactor_def Serghides_calculateFrictionFactor_def
    sectionReynoldsNumber_def calcTerm_eq Let_def
  by (rule refl)

lemma example_reynolds: "sectionReynoldsNumber exampleSection (1 / 1000) = 8000 / (11 * pi)"
proof -
  have raw: "((1 / 1000) / hydraulicArea exampleSection) *
        (diameter exampleSection / kinematicViscOfFluid exampleSection) = 8000 / (11 * pi)"
    by (simp add: exampleSection_def field_simps)
  have "11 * pi < 44" using pi_less_4 by simp
  then have "(1::real) / 10 ^ 6 \<le> 8000 / (11 * pi)"
    by (simp add: field_simps)
  then show ?thesis
    unfolding sectionReynoldsNumber_def raw by (simp add: max_def)
qed

lemma example_reynolds_lt: "sectionReynoldsNumber exampleSection (1 / 1000) < 2300"
proof -
  have "8000 < 2300 * (11 * pi)" using pi_ge_two by simp
  then show ?thesis unfolding example_reynolds
    by (simp add: field_simps)
qed

subsection \<open>The laminar regime\<close>

text \<open>
  Claim C3. For every positive relative roughness and every Reynolds number \<open>Re\<close> with
  \<open>0 < Re < 2300\<close> the friction factor is exactly \<open>64 / Re\<close>: the strategy of
  \<^verbatim>\<open>SerghidesApproximation\<close> returns it whatever the roughness is, and so does the friction
  factor of the banded section whenever the section's Reynolds number is below 2300. The
  three logarithmic terms of the turbulent estimate do not enter the result.
\<close>

theorem laminar_friction_factor:
  "(0 < relRough \<and> 0 < reynoldsNum \<and> reynoldsNum < 2300 \<longrightarrow>
      Serghides_calculateFrictionFactor relRough reynoldsNum = 64 / reynoldsNum) \<and>
   (sectionReynoldsNumber ps Q < 2300 \<longrightarrow>
      calculateFrictionFactor ps Q = 64 / sectionReynoldsNumber ps Q)"
  by (simp add: friction_is_strategy Serghides_calculateFrictionFactor_def)

theorem laminar_friction_factor_witness:
  "(0::real) < 4 / 10000 \<and> (0::real) < 1000 \<and> (1000::real) < 2300 \<and>
   Serghides_calculateFrictionFactor (4 / 10000) 1000 = 64 / 1000 \<and>
   sectionReynoldsNumber exampleSection (1 / 1000) < 2300 \<and>
   calculateFrictionFactor exampleSection (1 / 1000) = 11 * pi / 125"
  using laminar_friction_factor [of "4 / 10000" 1000 exampleSection "1 / 1000"]
    example_reynolds_lt
  by (simp add: example_reynolds)

subsection \<open>The pressure head\<close>

text \<open>
  Claim C4. The pressure head is \<open>(finalPressure - initialPressure) \<times> 2.31\<close> in the
  imperial unit system and \<open>(finalPressure - initialPressure) \<times> 10.2\<close> in the metric one,
  and it enters the total dynamic head as a summand: Bernoulli's decomposition adds it to
  the static head, the velocity head and the two losses. The banded section has no unit
  system; both of its heads carry the summand \<open>(p2 - p1) \<times> 2.31\<close>.
\<close>

theorem pressure_head_contribution:
  "Bernoullis_calculatePressureHead this True =
     (finalPressure (pipeSection this) - initialPressure (pipeSection this)) * 2.31 \<and>
   Bernoullis_calculatePressureHead this False =
     (finalPressure (pipeSection this) - initialPressure (pipeSection this)) * 10.2 \<and>
   Bernoullis_calculateTDH this isImperial Q rr =
     Bernoullis_calculatePressureHead this isImperial +
     (Bernoullis_calculateStaticHead this + Bernoullis_calculateVelocityHead this isImperial +
      Bernoullis_calculateMajorLosses this isImperial Q rr +
      Bernoullis_calculateMinorLosses this Q isImperial) \<and>
   snd (calculateTDH ps Q) =
     (p2 ps - p1 ps) * 2.31 +
     ((z2_min ps - z1_max ps) +
      calculateMajorLosses ps (max Q (1 / 10 ^ 6)) +
      calculateMinorLosses ps (max Q (1 / 10 ^ 6)) +
      (if hasVelocityHead ps
       then (max Q (1 / 10 ^ 6)) ^ 2 / (2 * 32.17 * (hydraulicArea ps) ^ 2) else 0)) \<and>
   fst (calculateTDH ps Q) =
     (p2 ps - p1 ps) * 2.31 +
     ((z2_max ps - z1_min ps) +
      calculateMajorLosses ps (max Q (1 / 10 ^ 6)) +
      calculateMinorLosses ps (max Q (1 / 10 ^ 6)) +
      (if hasVelocityHead ps
       then (max Q (1 / 10 ^ 6)) ^ 2 / (2 * 32.17 * (hydraulicArea ps) ^ 2) else 0))"
  by (simp add: Bernoullis_calculatePressureHead_def Bernoullis_calculateTDH_def
      calculateTDH_def Let_def)

theorem pressure_head_contribution_witness:
  "Bernoullis_calculatePressureHead
     \<lparr> approximationMethod = Serghides_calculateFrictionFactor,
       pipeSection = exampleSection1 \<rparr> True = 231 / 10 \<and>
   Bernoullis_calculatePressureHead
     \<lparr> approximationMethod = Serghides_calculateFrictionFactor,
       pipeSection = exampleSection1 \<rparr> False = 102"
  using pressure_head_contribution
    [of "\<lparr> approximationMethod = Serghides_calculateFrictionFactor,
           pipeSection = exampleSection1 \<rparr>"]
  by (simp add: exampleSection1_def)

subsection \<open>Rejected constructions\<close>

text \<open>
  The single-valued constructor accepts the example scenario without any K-value: an
  empty sequence of K-values is no validation error there.
\<close>

theorem empty_kvalues_accepted:
  "kValues exampleSection1NoK = [] \<and>
   PipeSection1_new exampleSection1NoK = Inr exampleSection1NoK"
  by (simp add: PipeSection1_new_def exampleSection1NoK_def exampleSection1_def)

text \<open>
  Claim C5, amended. The constructor of the banded section raises a validation error, and
  yields no section, when the diameter is zero, the length is zero, the sequence of
  K-values is empty or the elevation band crosses. The constructor of the single-valued
  section raises a validation error when the length is zero; it makes no check of the
  K-values and has no elevation band, and it accepts every argument record whose
  diameter, length, absolute roughness and kinematic viscosity are positive.
\<close>

theorem constructor_rejects:
  "(diameter a = 0 \<or> pipeLength a = 0 \<or> appurtenanceKValues a = [] \<or>
    z2_max a < z1_min a \<or> z2_min a < z1_max a \<longrightarrow>
      (\<exists>m. PipeSection_new a = Inl (ValidationError m))) \<and>
   (length1 b = 0 \<longrightarrow> (\<exists>m. PipeSection1_new b = Inl (ValidationError m))) \<and>
   (0 < diameter1 b \<and> 0 < length1 b \<and> 0 < absoluteRoughness1 b \<and> 0 < kinematicViscosity b \<longrightarrow>
      PipeSection1_new b = Inr b)"
  by (auto simp add: PipeSection_new_def PipeSection1_new_def)

theorem constructor_rejects_witness:
  "diameter (exampleParams \<lparr> diameter := 0 \<rparr>) = 0 \<and>
   PipeSection_new (exampleParams \<lparr> diameter := 0 \<rparr>) =
     Inl (ValidationError ''Pipe diameter must be greater than 0.'') \<and>
   pipeLength (exampleParams \<lparr> pipeLength := 0 \<rparr>) = 0 \<and>
   PipeSection_new (exampleParams \<lparr> pipeLength := 0 \<rparr>) =
     Inl (ValidationError ''Pipe length must be greater than 0.'') \<and>
   appurtenanceKValues (exampleParams \<lparr> appurtenanceKValues := [] \<rparr>) = [] \<and>
   PipeSection_new (exampleParams \<lparr> appurtenanceKValues := [] \<rparr>) =
     Inl (ValidationError ''Appurtenance K values must not be empty.'') \<and>
   z2_max (exampleParams \<lparr> z2_max := - 1 \<rparr>) < z1_min (exampleParams \<lparr> z2_max := - 1 \<rparr>) \<and>
   PipeSection_new (exampleParams \<lparr> z2_max := - 1 \<rparr>) =
     Inl (ValidationError ''Elevation ranges are invalid.'') \<and>
   z2_min (exampleParams \<lparr> z2_min := 1 \<rparr>) < z1_max (exampleParams \<lparr> z2_min := 1 \<rparr>) \<and>
   PipeSection_new (exampleParams \<lparr> z2_min := 1 \<rparr>) =
     Inl (ValidationError ''Elevation ranges are invalid.'') \<and>
   length1 (exampleSection1 \<lparr> length1 := 0 \<rparr>) = 0 \<and>
   PipeSection1_new (exampleSection1 \<lparr> length1 := 0 \<rparr>) =
     Inl (ValidationError ''Pipe length must be a positive integer'') \<and>
   0 < diameter1 exampleSection1 \<and> 0 < length1 exampleSection1 \<and>
   0 < absoluteRoughness1 exampleSection1 \<and> 0 < kinematicViscosity exampleSection1 \<and>
   PipeSection1_new exampleSection1 = Inr exampleSection1"
  using constructor_rejects
      [of "exampleParams \<lparr> diameter := 0 \<rparr>" "exampleSection1 \<lparr> length1 := 0 \<rparr>"]
    constructor_rejects
      [of "exampleParams \<lparr> pipeLength := 0 \<rparr>" exampleSection1]
    constructor_rejects
      [of "exampleParams \<lparr> appurtenanceKValues := [] \<rparr>" exampleSection1]
    constructor_rejects
      [of "exampleParams \<lparr> z2_max := - 1 \<rparr>" exampleSection1]
    constructor_rejects
      [of "exampleParams \<lparr> z2_min := 1 \<rparr>" exampleSection1]
  by (simp add: PipeSection_new_def PipeSection1_new_def exampleParams_def exampleSection1_def)

subsection \<open>The unimplemented method\<close>

text \<open>
  On the empty pipeline the request for \<^verbatim>\<open>COLEBROOK\<close> fails with the error of the empty
  pipeline, not with the error of the unsupported method.
\<close>

theorem colebrook_on_empty_pipeline:
  "fst (Pipeline_execute 10 COLEBROOK True \<lparr> pipelineSections = [] \<rparr>) = Inl EmptyPipelineError \<and>
   fst (Pipeline_execute 10 COLEBROOK True \<lparr> pipelineSections = [] \<rparr>) \<noteq>
     Inl UnsupportedMethodError"
  by (simp add: Pipeline_execute_def)

text \<open>
  Claim C6, amended. Evaluating a pipeline with \<^verbatim>\<open>COLEBROOK\<close> never returns a curve: it
  raises the error of the unsupported method when the pipeline has a section and the error
  of the empty pipeline when it has none, for every target flow rate and unit system. The
  single-valued section's own \<^verbatim>\<open>execute\<close> raises the error of the unsupported method.
  No strategy is substituted.
\<close>

theorem colebrook_unsupported:
  "fst (Pipeline_execute targetFlow COLEBROOK isImperial this) =
     (if pipelineSections this = [] then Inl EmptyPipelineError
      else Inl UnsupportedMethodError) \<and>
   PipeSection1_execute section COLEBROOK isImperial = Inl UnsupportedMethodError"
  by (simp add: Pipeline_execute_def PipeSection1_execute_def)

theorem colebrook_unsupported_witness:
  "fst (Pipeline_execute 10 COLEBROOK True \<lparr> pipelineSections = [exampleSection1] \<rparr>) =
     Inl UnsupportedMethodError \<and>
   PipeSection1_execute exampleSection1 COLEBROOK True = Inl UnsupportedMethodError"
  using colebrook_unsupported
    [of 10 True "\<lparr> pipelineSections = [exampleSection1] \<rparr>" exampleSection1]
  by simp

subsection \<open>Evaluation reads only\<close>

text \<open>
  Claim C9. Evaluating the system curve leaves the list of sections as it was: the object
  after \<^verbatim>\<open>System.calcTDH\<close> and after \<^verbatim>\<open>Pipeline.execute\<close> is the object before, whether the
  call returns a curve or raises, so the same sections are there in the same order with
  the same field values, and a second evaluation has the outcome of the first.
\<close>

theorem evaluation_keeps_sections:
  "snd (calcTDH sys) = sys \<and>
   System_getPipeSections (snd (calcTDH sys)) = System_getPipeSections sys \<and>
   fst (calcTDH (snd (calcTDH sys))) = fst (calcTDH sys) \<and>
   snd (Pipeline_execute targetFlow approxMethod isImperial pl) = pl \<and>
   Pipeline_getPipeSections (snd (Pipeline_execute targetFlow approxMethod isImperial pl)) =
     Pipeline_getPipeSections pl \<and>
   fst (Pipeline_execute targetFlow approxMethod isImperial
          (snd (Pipeline_execute targetFlow approxMethod isImperial pl))) =
     fst (Pipeline_execute targetFlow approxMethod isImperial pl)"
proof -
  have sys: "snd (calcTDH sys) = sys"
    by (simp add: calcTDH_def Let_def)
  have pl: "snd (Pipeline_execute targetFlow approxMethod isImperial pl) = pl"
    by (simp add: Pipeline_execute_def Let_def split: ApproximationMethod.split)
  show ?thesis
    by (simp add: sys pl)
qed

theorem evaluation_keeps_sections_witness:
  "System_getPipeSections (snd (calcTDH \<lparr> pipeSections = [exampleSection] \<rparr>)) =
     [exampleSection] \<and>
   Pipeline_getPipeSections
     (snd (Pipeline_execute 10 SERGHIDE True \<lparr> pipelineSections = [exampleSection1] \<rparr>)) =
     [exampleSection1]"
  using evaluation_keeps_sections
    [of "\<lparr> pipeSections = [exampleSection] \<rparr>" 10 SERGHIDE True
        "\<lparr> pipelineSections = [exampleSection1] \<rparr>"]
  by (simp add: System_getPipeSections_def Pipeline_getPipeSections_def)

subsection \<open>Indices out of range\<close>

text \<open>
  Claim C10. For an index below zero or not below the number of sections,
  \<^verbatim>\<open>removePipeSection\<close> and \<^verbatim>\<open>modifyPipeSection\<close> of \<^verbatim>\<open>System\<close> and of \<^verbatim>\<open>Pipeline\<close> raise
  the error of the index out of range and leave the object, and so the list of sections,
  exactly as it was.
\<close>

theorem index_out_of_range:
  "(index < 0 \<or> int (length (pipeSections sys)) \<le> index \<longrightarrow>
      System_removePipeSection index sys = (Inl IndexOutOfRangeError, sys) \<and>
      System_modifyPipeSection index newParams sys = (Inl IndexOutOfRangeError, sys)) \<and>
   (index < 0 \<or> int (length (pipelineSections pl)) \<le> index \<longrightarrow>
      Pipeline_removePipeSection index pl = (Inl IndexOutOfRangeError, pl) \<and>
      Pipeline_modifyPipeSection index newParams1 pl = (Inl IndexOutOfRangeError, pl))"
  by (auto simp add: System_removePipeSection_def System_modifyPipeSection_def
      Pipeline_removePipeSection_def Pipeline_modifyPipeSection_def)

theorem index_out_of_range_witness:
  "int (length (pipeSections \<lparr> pipeSections = [exampleSection] \<rparr>)) \<le> 1 \<and>
   System_removePipeSection 1 \<lparr> pipeSections = [exampleSection] \<rparr> =
     (Inl IndexOutOfRangeError, \<lparr> pipeSections = [exampleSection] \<rparr>) \<and>
   System_modifyPipeSection 1 exampleParams \<lparr> pipeSections = [exampleSection] \<rparr> =
     (Inl IndexOutOfRangeError, \<lparr> pipeSections = [exampleSection] \<rparr>) \<and>
   int (length (pipelineSections \<lparr> pipelineSections = [exampleSection1] \<rparr>)) \<le> 1 \<and>
   Pipeline_removePipeSection 1 \<lparr> pipelineSections = [exampleSection1] \<rparr> =
     (Inl IndexOutOfRangeError, \<lparr> pipelineSections = [exampleSection1] \<rparr>) \<and>
   Pipeline_modifyPipeSection 1 exampleSection1 \<lparr> pipelineSections = [exampleSection1] \<rparr> =
     (Inl IndexOutOfRangeError, \<lparr> pipelineSections = [exampleSection1] \<rparr>)"
  using index_out_of_range
    [of 1 "\<lparr> pipeSections = [exampleSection] \<rparr>" exampleParams
        "\<lparr> pipelineSections = [exampleSection1] \<rparr>" exampleSection1]
  by simp

subsection \<open>The range of flow rates\<close>








subsection \<open>The curve of one banded section\<close>




lemma constructed_fields:
  assumes "PipeSection_new a = Inr ps"
  shows "z1_min ps = z1_min a" "z1_max ps = z1_max a" "z2_min ps = z2_min a"
    "z2_max ps = z2_max a" "pipeLength ps = pipeLength a" "diameter ps = diameter a"
    "kinematicViscOfFluid ps = kinematicViscOfFluid a"
    "hydraulicArea ps = (pi * (diameter a) ^ 2) / 4"
    "relativeRoughness ps = absoluteRoughness a / diameter a"
    "0 < diameter a" "0 < pipeLength a" "0 < kinematicViscOfFluid a"
  using assms by (auto simp add: PipeSection_new_def split: if_splits)



subsection \<open>The major losses\<close>

text \<open>
  The banded section computes the major losses of the specification at the imperial
  constant, with the friction factor of the strategy at the section's relative roughness
  and Reynolds number.
\<close>

lemma banded_major_losses:
  assumes "PipeSection_new a = Inr ps"
  shows "calculateMajorLosses ps Q =
     specMajorLosses
       (Serghides_calculateFrictionFactor (absoluteRoughness a / diameter a)
          (max ((Q / ((pi * (diameter a) ^ 2) / 4)) * (diameter a / kinematicViscOfFluid a))
               (1 / 10 ^ 6)))
       (pipeLength a) (diameter a) Q 32.17"
  by (simp add: calculateMajorLosses_def specMajorLosses_def friction_is_strategy
      sectionReynoldsNumber_def constructed_fields [OF assms])

text \<open>
  Bernoulli's decomposition divides by \<open>2\<cdot>g\<cdot>hydraulicArea\<close>: the area is not squared.
\<close>

lemma bernoullis_major_losses_form:
  "Bernoullis_calculateMajorLosses this isImperial Q rr =
     approximationMethod this rr (Bernoullis_calculateReynoldsNumber this Q) *
     (length1 (pipeSection this) / diameter1 (pipeSection this)) * Q ^ 2 /
     (2 * gravityOf isImperial * ((pi * (diameter1 (pipeSection this)) ^ 2) / 4))"
  by (simp add: Bernoullis_calculateMajorLosses_def gravityOf_def Let_def)

lemma example_bernoullis_reynolds:
  "Bernoullis_calculateReynoldsNumber exampleBernoullis (1 / 1000) = 8000 / (11 * pi)"
proof -
  have "11 * pi < 44" using pi_less_4 by simp
  then have floor: "(1::real) / 10 ^ 6 \<le> 8000 / (11 * pi)"
    by (simp add: field_simps)
  have raw: "(((1 / 1000) / ((pi * (diameter1 (pipeSection exampleBernoullis)) ^ 2) / 4)) *
        diameter1 (pipeSection exampleBernoullis)) /
      kinematicViscosity (pipeSection exampleBernoullis) = 8000 / (11 * pi)"
    by (simp add: exampleBernoullis_def exampleSection1_def field_simps power2_eq_square)
  show ?thesis
    unfolding Bernoullis_calculateReynoldsNumber_def Let_def raw
    using floor by (simp add: max_def)
qed

lemma example_laminar: "8000 / (11 * pi) < 2300"
proof -
  have "8000 < 2300 * (11 * pi)" using pi_ge_two by simp
  then show ?thesis by (simp add: field_simps)
qed

lemma example_friction:
  "Serghides_calculateFrictionFactor (4 / 10000) (8000 / (11 * pi)) = 11 * pi / 125"
  using example_laminar by (simp add: Serghides_calculateFrictionFactor_def)

text \<open>
  Claim C1, at a failing input. The example section (length 100, diameter 0.5, absolute
  roughness 0.0002, kinematic viscosity 1.1e-5) at the flow rate 0.001 in the imperial
  unit system has the Reynolds number \<open>8000/(11\<pi>)\<close>, which is laminar, and the friction
  factor \<open>11\<pi>/125\<close>. Bernoulli's decomposition returns the major losses
  \<open>44/10053125\<close>; the formula of the claim gives \<open>704/(10053125\<pi>)\<close>, which is another
  number.
\<close>

theorem bernoullis_major_losses_area_not_squared:
  "Bernoullis_calculateReynoldsNumber exampleBernoullis (1 / 1000) = 8000 / (11 * pi) \<and>
   Bernoullis_calculateMajorLosses exampleBernoullis True (1 / 1000) (4 / 10000) =
     44 / 10053125 \<and>
   specMajorLosses (Serghides_calculateFrictionFactor (4 / 10000) (8000 / (11 * pi)))
     100 (1 / 2) (1 / 1000) (gravityOf True) = 704 / (10053125 * pi) \<and>
   Bernoullis_calculateMajorLosses exampleBernoullis True (1 / 1000) (4 / 10000) \<noteq>
     specMajorLosses (Serghides_calculateFrictionFactor (4 / 10000) (8000 / (11 * pi)))
       100 (1 / 2) (1 / 1000) (gravityOf True)"
proof -
  have code: "Bernoullis_calculateMajorLosses exampleBernoullis True (1 / 1000) (4 / 10000) =
      44 / 10053125"
  proof -
    have f: "approximationMethod exampleBernoullis (4 / 10000) (8000 / (11 * pi)) =
        11 * pi / 125"
      unfolding exampleBernoullis_def Bernoullis.select_convs by (rule example_friction)
    show ?thesis
      unfolding bernoullis_major_losses_form example_bernoullis_reynolds f
      by (simp add: exampleBernoullis_def exampleSection1_def gravityOf_def field_simps
          power2_eq_square)
  qed
  have spec: "specMajorLosses (Serghides_calculateFrictionFactor (4 / 10000) (8000 / (11 * pi)))
      100 (1 / 2) (1 / 1000) (gravityOf True) = 704 / (10053125 * pi)"
    unfolding example_friction
    by (simp add: specMajorLosses_def gravityOf_def field_simps power2_eq_square)
  have "pi \<noteq> 16" using pi_less_4 by simp
  then have "(44::real) / 10053125 \<noteq> 704 / (10053125 * pi)"
    by (simp add: field_simps)
  with code spec example_bernoullis_reynolds show ?thesis
    by simp
qed

subsection \<open>The loops of the aggregates\<close>








text \<open>The inner loop of \<^verbatim>\<open>Pipeline.execute\<close>.\<close>

lemma length_sectionExecute: "length (sectionExecute s frs m imp) = length frs"
  by (simp add: sectionExecute_def Bernoullis_execute_def)





subsection \<open>The order of the sections\<close>








end
